theory Spec2Isabelle
  imports Main
begin

section \<open>JavaScript values\<close>

text \<open>
  The frontend handles the values that \<^verbatim>\<open>res.json()\<close> produces. An object is a finite
  map from property names to values; the order of its keys is not observed by any of
  the functions below. Numbers are the integer-valued ones of magnitude below 10^21,
  which a template literal prints in decimal. A character of a \<^typ>\<open>string\<close> stands
  for one code point.
\<close>

datatype json =
    JNull
  | JBool bool
  | JNum int
  | JStr string
  | JArr "json list"
  | JObj "string \<Rightarrow> json option"

text \<open>
  A primitive JavaScript value: what the argument \<^verbatim>\<open>id\<close> of \<^verbatim>\<open>refreshSummary\<close> is
  compared with by \<^verbatim>\<open>===\<close>. Objects and arrays are compared by reference in
  JavaScript and are excluded from this argument.
\<close>

datatype prim =
    PUndefined
  | PNull
  | PBool bool
  | PNum int
  | PStr string

datatype js_error = NetworkError | SyntaxError | TypeError

text \<open>Decimal printing, as \<^verbatim>\<open>String(n)\<close> does for an integer.\<close>

definition digit :: "nat \<Rightarrow> char" where
  "digit d = char_of (48 + d)"

fun show_nat :: "nat \<Rightarrow> string" where
  "show_nat n = (if n < 10 then [digit n] else show_nat (n div 10) @ [digit (n mod 10)])"

declare show_nat.simps [simp del]

definition show_int :: "int \<Rightarrow> string" where
  "show_int i = (if i < 0 then CHR ''-'' # show_nat (nat (- i)) else show_nat (nat i))"

text \<open>The string a template literal \<^verbatim>\<open>${v}\<close> inserts for a primitive value.\<close>

fun to_string :: "prim \<Rightarrow> string" where
  "to_string PUndefined = ''undefined''"
| "to_string PNull = ''null''"
| "to_string (PBool b) = (if b then ''true'' else ''false'')"
| "to_string (PNum n) = show_int n"
| "to_string (PStr s) = s"

text \<open>
  \<^verbatim>\<open>v.name\<close> for a name that no prototype defines (\<^verbatim>\<open>id\<close>, \<^verbatim>\<open>response\<close>,
  \<^verbatim>\<open>summary\<close>): reading a property of \<^verbatim>\<open>null\<close> throws, an object gives its own
  property, every other value gives \<^verbatim>\<open>undefined\<close> (here \<open>None\<close>).
\<close>

fun get_prop :: "json \<Rightarrow> string \<Rightarrow> js_error + json option" where
  "get_prop JNull name = Inl TypeError"
| "get_prop (JObj props) name = Inr (props name)"
| "get_prop v name = Inr None"

text \<open>\<^verbatim>\<open>v === id\<close> for a property value \<open>v\<close> and a primitive \<open>id\<close>.\<close>

fun strict_eq :: "json option \<Rightarrow> prim \<Rightarrow> bool" where
  "strict_eq None PUndefined = True"
| "strict_eq (Some JNull) PNull = True"
| "strict_eq (Some (JBool a)) (PBool b) = (a = b)"
| "strict_eq (Some (JNum a)) (PNum b) = (a = b)"
| "strict_eq (Some (JStr a)) (PStr b) = (a = b)"
| "strict_eq v p = False"

text \<open>
  The own enumerable properties that \<^verbatim>\<open>...v\<close> copies inside an object literal: those
  of an object, the indexed elements of an array, the indexed characters of a string,
  nothing for \<^verbatim>\<open>null\<close>, a number or a boolean.
\<close>

fun own_props :: "json \<Rightarrow> string \<Rightarrow> json option" where
  "own_props (JObj props) = props"
| "own_props (JArr xs) = map_of (zip (map show_nat [0..<length xs]) xs)"
| "own_props (JStr s) = map_of (zip (map show_nat [0..<length s]) (map (\<lambda>c. JStr [c]) s))"
| "own_props v = Map.empty"

text \<open>\<^verbatim>\<open>{ ...a, ...b }\<close>: the properties of \<open>a\<close>, overridden by those of \<open>b\<close>.\<close>

definition object_spread :: "json \<Rightarrow> json \<Rightarrow> json" where
  "object_spread a b = JObj (own_props a ++ own_props b)"

text \<open>
  \<^verbatim>\<open>[...v, x]\<close>: an array and a string are iterable, every other JSON value makes
  the spread throw a TypeError.
\<close>

fun array_spread :: "json \<Rightarrow> json \<Rightarrow> js_error + json" where
  "array_spread (JArr xs) x = Inr (JArr (xs @ [x]))"
| "array_spread (JStr s) x = Inr (JArr (map (\<lambda>c. JStr [c]) s @ [x]))"
| "array_spread v x = Inl TypeError"

section \<open>Requests and the network\<close>

datatype blob = Blob string

datatype form_entry = EntryFile blob | EntryString string

datatype http_method = GET | POST

text \<open>
  The body handed to \<^verbatim>\<open>fetch\<close>: the text \<^verbatim>\<open>JSON.stringify(data)\<close>, kept as the
  value it serialises, a \<^verbatim>\<open>FormData\<close> with its entries, or none.
\<close>

datatype body = NoBody | JSON_stringify json | FormData "(string \<times> form_entry) list"

text \<open>
  The arguments of one \<^verbatim>\<open>fetch\<close> call; \<open>http_verb\<close> is the option \<^verbatim>\<open>method\<close>. A
  header's value is \<open>None\<close> when the object literal holds \<^verbatim>\<open>undefined\<close> there.
\<close>

record request =
  url :: string
  http_verb :: http_method
  headers :: "(string \<times> string option) list"
  payload :: body

text \<open>
  A response has a status, which the frontend never reads, and a body that
  \<^verbatim>\<open>res.json()\<close> parses (\<open>None\<close>: the body is not JSON). The network answers a
  request with a response, or \<^verbatim>\<open>fetch\<close> rejects (\<open>None\<close>).
\<close>

record response =
  status :: nat
  json_body :: "json option"

type_synonym network = "request \<Rightarrow> response option"

text \<open>\<^verbatim>\<open>const res = await fetch(...); return res.json();\<close>\<close>

definition fetch_json :: "network \<Rightarrow> request \<Rightarrow> js_error + json" where
  "fetch_json net req =
     (case net req of
        None \<Rightarrow> Inl NetworkError
      | Some res \<Rightarrow> (case json_body res of None \<Rightarrow> Inl SyntaxError | Some j \<Rightarrow> Inr j))"

section \<open>api.js\<close>

text \<open>The build-time environment: either variable may be unset.\<close>

record env =
  REACT_APP_BACKEND_URL :: "string option"
  REACT_APP_COPILOT_API_KEY :: "string option"

definition API_BASE_URL :: "env \<Rightarrow> string option" where
  "API_BASE_URL e = REACT_APP_BACKEND_URL e"

definition API_KEY :: "env \<Rightarrow> string option" where
  "API_KEY e = REACT_APP_COPILOT_API_KEY e"

definition defaultHeaders :: "env \<Rightarrow> (string \<times> string option) list" where
  "defaultHeaders e = [(''X-API-Key'', API_KEY e), (''Content-Type'', Some ''application/json'')]"

text \<open>The template literal \<^verbatim>\<open>`${API_BASE_URL}${endpoint}`\<close>.\<close>

definition api_url :: "env \<Rightarrow> string \<Rightarrow> string" where
  "api_url e endpoint =
     (case API_BASE_URL e of None \<Rightarrow> ''undefined'' | Some base \<Rightarrow> base) @ endpoint"

definition postJSON_request :: "env \<Rightarrow> string \<Rightarrow> json \<Rightarrow> request" where
  "postJSON_request e endpoint data =
     \<lparr>url = api_url e endpoint, http_verb = POST, headers = defaultHeaders e,
      payload = JSON_stringify data\<rparr>"

definition getJSON_request :: "env \<Rightarrow> string \<Rightarrow> request" where
  "getJSON_request e endpoint =
     \<lparr>url = api_url e endpoint, http_verb = GET, headers = [(''X-API-Key'', API_KEY e)],
      payload = NoBody\<rparr>"

definition postFile_request :: "env \<Rightarrow> string \<Rightarrow> form_entry \<Rightarrow> request" where
  "postFile_request e endpoint f =
     \<lparr>url = api_url e endpoint, http_verb = POST, headers = [(''X-API-Key'', API_KEY e)],
      payload = FormData [(''file'', f)]\<rparr>"

definition postJSON :: "env \<Rightarrow> network \<Rightarrow> string \<Rightarrow> json \<Rightarrow> js_error + json" where
  "postJSON e net endpoint data = fetch_json net (postJSON_request e endpoint data)"

definition getJSON :: "env \<Rightarrow> network \<Rightarrow> string \<Rightarrow> js_error + json" where
  "getJSON e net endpoint = fetch_json net (getJSON_request e endpoint)"

definition postFile :: "env \<Rightarrow> network \<Rightarrow> string \<Rightarrow> form_entry \<Rightarrow> js_error + json" where
  "postFile e net endpoint f = fetch_json net (postFile_request e endpoint f)"

section \<open>App.js\<close>

text \<open>
  \<^verbatim>\<open>selectedFile\<close> starts as \<^verbatim>\<open>null\<close> and is set to \<^verbatim>\<open>e.target.files[0]\<close>, which is
  a file or \<^verbatim>\<open>undefined\<close>.
\<close>

datatype selection = SelNull | SelUndefined | SelFile blob

text \<open>
  The state of the component, one field for each \<^verbatim>\<open>useState\<close> (the field
  \<open>notes_st\<close> is the variable \<^verbatim>\<open>notes\<close>). The three lists hold whatever the server
  sent, so they are JSON values; \<^verbatim>\<open>copilotResponse\<close> holds \<^verbatim>\<open>result.response\<close>,
  which may be \<^verbatim>\<open>undefined\<close>.
\<close>

record app_state =
  activeTab :: string
  notes_st :: json
  noteTitle :: string
  noteContent :: string
  schedules :: json
  summaries :: json
  selectedFile :: selection
  copilotResponse :: "json option"
  online :: bool

definition initial_state :: "bool \<Rightarrow> app_state" where
  "initial_state navigator_onLine =
     \<lparr>activeTab = ''pdf'', notes_st = JArr [], noteTitle = [], noteContent = [],
      schedules = JArr [], summaries = JArr [], selectedFile = SelNull,
      copilotResponse = Some (JStr []), online = navigator_onLine\<rparr>"

text \<open>
  What one call of an event handler does: the requests it sent, in order, the state it
  leaves, and the error it threw, if any. A handler runs on the state it was called
  in; handlers that overlap in time are not modelled.
\<close>

record 's outcome =
  sent :: "request list"
  final :: 's
  thrown :: "js_error option"

definition loadData :: "env \<Rightarrow> network \<Rightarrow> app_state \<Rightarrow> app_state outcome" where
  "loadData e net s =
     (let r1 = getJSON_request e ''/api/notes'' in
      case getJSON e net ''/api/notes'' of
        Inl err \<Rightarrow> \<lparr>sent = [r1], final = s, thrown = None\<rparr>
      | Inr notesData \<Rightarrow>
          (let s1 = s\<lparr>notes_st := notesData\<rparr>; r2 = getJSON_request e ''/api/schedule'' in
           case getJSON e net ''/api/schedule'' of
             Inl err \<Rightarrow> \<lparr>sent = [r1, r2], final = s1, thrown = None\<rparr>
           | Inr schedulesData \<Rightarrow>
               (let s2 = s1\<lparr>schedules := schedulesData\<rparr>;
                    r3 = getJSON_request e ''/api/summaries'' in
                case getJSON e net ''/api/summaries'' of
                  Inl err \<Rightarrow> \<lparr>sent = [r1, r2, r3], final = s2, thrown = None\<rparr>
                | Inr summariesData \<Rightarrow>
                    \<lparr>sent = [r1, r2, r3], final = s2\<lparr>summaries := summariesData\<rparr>,
                     thrown = None\<rparr>)))"

text \<open>The guard \<^verbatim>\<open>!noteTitle || !noteContent\<close>: a string is falsy when it is empty.\<close>

definition createNote :: "env \<Rightarrow> network \<Rightarrow> app_state \<Rightarrow> app_state outcome" where
  "createNote e net s =
     (if noteTitle s = [] \<or> noteContent s = []
      then \<lparr>sent = [], final = s, thrown = None\<rparr>
      else
        (let data = JObj [''title'' \<mapsto> JStr (noteTitle s), ''content'' \<mapsto> JStr (noteContent s)];
             req = postJSON_request e ''/api/notes'' data in
         case postJSON e net ''/api/notes'' data of
           Inl err \<Rightarrow> \<lparr>sent = [req], final = s, thrown = Some err\<rparr>
         | Inr newNote \<Rightarrow>
             (case array_spread (notes_st s) newNote of
                Inl err \<Rightarrow> \<lparr>sent = [req], final = s, thrown = Some err\<rparr>
              | Inr appended \<Rightarrow>
                  \<lparr>sent = [req],
                   final = s\<lparr>notes_st := appended, noteTitle := [], noteContent := []\<rparr>,
                   thrown = None\<rparr>)))"

text \<open>\<open>now\<close> is the text of \<^verbatim>\<open>new Date().toISOString()\<close>.\<close>

definition createSchedule :: "env \<Rightarrow> network \<Rightarrow> string \<Rightarrow> app_state \<Rightarrow> app_state outcome" where
  "createSchedule e net now s =
     (let data = JObj [''title'' \<mapsto> JStr ''Test Reminder'',
                       ''description'' \<mapsto> JStr ''This is a reminder'',
                       ''scheduled_time'' \<mapsto> JStr now,
                       ''notification_type'' \<mapsto> JStr ''reminder''];
          req = postJSON_request e ''/api/schedule'' data in
      case postJSON e net ''/api/schedule'' data of
        Inl err \<Rightarrow> \<lparr>sent = [req], final = s, thrown = Some err\<rparr>
      | Inr newSchedule \<Rightarrow>
          (case array_spread (schedules s) newSchedule of
             Inl err \<Rightarrow> \<lparr>sent = [req], final = s, thrown = Some err\<rparr>
           | Inr schedules' \<Rightarrow>
               \<lparr>sent = [req], final = s\<lparr>schedules := schedules'\<rparr>, thrown = None\<rparr>))"

text \<open>The template literal \<^verbatim>\<open>`/api/refresh-summary/${id}`\<close>.\<close>

definition refresh_endpoint :: "prim \<Rightarrow> string" where
  "refresh_endpoint ident = ''/api/refresh-summary/'' @ to_string ident"

text \<open>
  \<^verbatim>\<open>summaries.map((s) => (s.id === id ? { ...s, ...refreshed } : s))\<close> on the elements
  of an array, left to right; reading \<^verbatim>\<open>s.id\<close> of a \<^verbatim>\<open>null\<close> element throws.
\<close>

fun refresh_each :: "prim \<Rightarrow> json \<Rightarrow> json list \<Rightarrow> js_error + json list" where
  "refresh_each ident refreshed [] = Inr []"
| "refresh_each ident refreshed (s # rest) =
     (case get_prop s ''id'' of
        Inl err \<Rightarrow> Inl err
      | Inr v \<Rightarrow>
          (case refresh_each ident refreshed rest of
             Inl err \<Rightarrow> Inl err
           | Inr rest' \<Rightarrow>
               Inr ((if strict_eq v ident then object_spread s refreshed else s) # rest')))"

text \<open>\<^verbatim>\<open>summaries.map(...)\<close>: only an array has the method \<^verbatim>\<open>map\<close>.\<close>

fun summaries_map :: "prim \<Rightarrow> json \<Rightarrow> json \<Rightarrow> js_error + json" where
  "summaries_map ident refreshed (JArr xs) =
     (case refresh_each ident refreshed xs of Inl err \<Rightarrow> Inl err | Inr ys \<Rightarrow> Inr (JArr ys))"
| "summaries_map ident refreshed v = Inl TypeError"

definition refreshSummary :: "env \<Rightarrow> network \<Rightarrow> prim \<Rightarrow> app_state \<Rightarrow> app_state outcome" where
  "refreshSummary e net ident s =
     (let req = postJSON_request e (refresh_endpoint ident) (JObj Map.empty) in
      case postJSON e net (refresh_endpoint ident) (JObj Map.empty) of
        Inl err \<Rightarrow> \<lparr>sent = [req], final = s, thrown = Some err\<rparr>
      | Inr refreshed \<Rightarrow>
          (case summaries_map ident refreshed (summaries s) of
             Inl err \<Rightarrow> \<lparr>sent = [req], final = s, thrown = Some err\<rparr>
           | Inr summaries' \<Rightarrow>
               \<lparr>sent = [req], final = s\<lparr>summaries := summaries'\<rparr>, thrown = None\<rparr>))"

text \<open>The guard \<^verbatim>\<open>!selectedFile\<close>: \<^verbatim>\<open>null\<close> and \<^verbatim>\<open>undefined\<close> are falsy, a file is not.\<close>

definition uploadPDF :: "env \<Rightarrow> network \<Rightarrow> app_state \<Rightarrow> app_state outcome" where
  "uploadPDF e net s =
     (case selectedFile s of
        SelNull \<Rightarrow> \<lparr>sent = [], final = s, thrown = None\<rparr>
      | SelUndefined \<Rightarrow> \<lparr>sent = [], final = s, thrown = None\<rparr>
      | SelFile f \<Rightarrow>
          (let req = postFile_request e ''/api/upload-pdf'' (EntryFile f) in
           case postFile e net ''/api/upload-pdf'' (EntryFile f) of
             Inl err \<Rightarrow> \<lparr>sent = [req], final = s, thrown = Some err\<rparr>
           | Inr uploaded \<Rightarrow>
               (case array_spread (summaries s) uploaded of
                  Inl err \<Rightarrow> \<lparr>sent = [req], final = s, thrown = Some err\<rparr>
                | Inr summaries' \<Rightarrow>
                    \<lparr>sent = [req],
                     final = s\<lparr>summaries := summaries', selectedFile := SelNull\<rparr>,
                     thrown = None\<rparr>)))"

definition runCopilotCommand :: "env \<Rightarrow> network \<Rightarrow> string \<Rightarrow> app_state \<Rightarrow> app_state outcome" where
  "runCopilotCommand e net command s =
     (let data = JObj [''command'' \<mapsto> JStr command];
          req = postJSON_request e ''/api/copilot/process-command'' data in
      case postJSON e net ''/api/copilot/process-command'' data of
        Inl err \<Rightarrow> \<lparr>sent = [req], final = s, thrown = Some err\<rparr>
      | Inr result \<Rightarrow>
          (case get_prop result ''response'' of
             Inl err \<Rightarrow> \<lparr>sent = [req], final = s, thrown = Some err\<rparr>
           | Inr v \<Rightarrow> \<lparr>sent = [req], final = s\<lparr>copilotResponse := v\<rparr>, thrown = None\<rparr>))"

text \<open>The operations of the component that talk to the backend.\<close>

datatype action =
    LoadData
  | CreateNote
  | CreateSchedule string
  | RefreshSummary prim
  | UploadPDF
  | RunCopilotCommand string

fun perform :: "env \<Rightarrow> network \<Rightarrow> action \<Rightarrow> app_state \<Rightarrow> app_state outcome" where
  "perform e net LoadData s = loadData e net s"
| "perform e net CreateNote s = createNote e net s"
| "perform e net (CreateSchedule now) s = createSchedule e net now s"
| "perform e net (RefreshSummary ident) s = refreshSummary e net ident s"
| "perform e net UploadPDF s = uploadPDF e net s"
| "perform e net (RunCopilotCommand command) s = runCopilotCommand e net command s"

section \<open>script.js\<close>

text \<open>
  The page of the legacy uploader: the files of the input \<^verbatim>\<open>pdfInput\<close> (\<open>None\<close> when
  the page has no such element), whether the element \<^verbatim>\<open>output\<close> exists, and the value
  last assigned to its \<^verbatim>\<open>innerText\<close>.
\<close>

record document =
  pdfInput :: "blob list option"
  output_exists :: bool
  output_innerText :: "json option"

text \<open>
  \<^verbatim>\<open>formData.append("file", files[0])\<close>: with no file chosen \<^verbatim>\<open>files[0]\<close> is
  \<^verbatim>\<open>undefined\<close>, which a FormData stores as the string "undefined".
\<close>

definition first_file :: "blob list \<Rightarrow> form_entry" where
  "first_file files = (case files of [] \<Rightarrow> EntryString ''undefined'' | f # rest \<Rightarrow> EntryFile f)"

definition legacy_request :: "form_entry \<Rightarrow> request" where
  "legacy_request f =
     \<lparr>url = ''/api/upload-pdf'', http_verb = POST,
      headers = [(''X-API-Key'', Some ''resource-app-copilot-key-2024'')],
      payload = FormData [(''file'', f)]\<rparr>"

definition legacy_uploadPDF :: "network \<Rightarrow> document \<Rightarrow> document outcome" where
  "legacy_uploadPDF net d =
     (case pdfInput d of
        None \<Rightarrow> \<lparr>sent = [], final = d, thrown = Some TypeError\<rparr>
      | Some files \<Rightarrow>
          (let req = legacy_request (first_file files) in
           case fetch_json net req of
             Inl err \<Rightarrow> \<lparr>sent = [req], final = d, thrown = Some err\<rparr>
           | Inr data \<Rightarrow>
               (if \<not> output_exists d
                then \<lparr>sent = [req], final = d, thrown = Some TypeError\<rparr>
                else
                  (case get_prop data ''summary'' of
                     Inl err \<Rightarrow> \<lparr>sent = [req], final = d, thrown = Some err\<rparr>
                   | Inr v \<Rightarrow>
                       \<lparr>sent = [req], final = d\<lparr>output_innerText := v\<rparr>, thrown = None\<rparr>))))"

section \<open>The documented HTTP surface\<close>

text \<open>The five endpoints that the table "API Endpoints" of README.md lists.\<close>

definition documented_endpoints :: "string list" where
  "documented_endpoints =
     [''/api/copilot/process-command'', ''/api/upload-pdf'', ''/api/notes'',
      ''/api/schedule'', ''/api/summaries'']"

text \<open>The headers object of a request has a property of this name.\<close>

definition has_header :: "string \<Rightarrow> request \<Rightarrow> bool" where
  "has_header name r = (name \<in> fst ` set (headers r))"

text \<open>The headers object of a request gives the header \<^verbatim>\<open>X-API-Key\<close> the value \<open>k\<close>.\<close>

definition sends_key :: "string option \<Rightarrow> request \<Rightarrow> bool" where
  "sends_key k r = (map_of (headers r) ''X-API-Key'' = Some k)"

text \<open>The elements of an array; no elements for any other value.\<close>

fun elements :: "json \<Rightarrow> json list" where
  "elements (JArr xs) = xs"
| "elements v = []"

text \<open>Concrete surroundings for running the handlers on examples.\<close>

definition example_env :: env where
  "example_env =
     \<lparr>REACT_APP_BACKEND_URL = Some ''http://localhost:8000'',
      REACT_APP_COPILOT_API_KEY = Some ''resource-app-copilot-key-2024''\<rparr>"

text \<open>A network that answers every request with status 200 and the JSON value \<open>j\<close>.\<close>

definition answering :: "json \<Rightarrow> network" where
  "answering j = (\<lambda>req. Some \<lparr>status = 200, json_body = Some j\<rparr>)"

text \<open>A network on which every \<^verbatim>\<open>fetch\<close> rejects.\<close>

definition unreachable :: network where
  "unreachable = (\<lambda>req. None)"

text \<open>Two summary records, a note and a state that holds them.\<close>

definition summary_one :: json where
  "summary_one =
     JObj [''id'' \<mapsto> JNum 1, ''filename'' \<mapsto> JStr ''a.pdf'', ''summary'' \<mapsto> JStr ''old'',
           ''generation_method'' \<mapsto> JStr ''keyword-fallback'']"

definition summary_two :: json where
  "summary_two =
     JObj [''id'' \<mapsto> JNum 2, ''filename'' \<mapsto> JStr ''b.pdf'', ''summary'' \<mapsto> JStr ''other'',
           ''generation_method'' \<mapsto> JStr ''ai'']"

definition note_one :: json where
  "note_one = JObj [''id'' \<mapsto> JNum 1, ''title'' \<mapsto> JStr ''t'', ''content'' \<mapsto> JStr ''c'']"

definition example_state :: app_state where
  "example_state =
     \<lparr>activeTab = ''notes'', notes_st = JArr [note_one], noteTitle = ''title'',
      noteContent = ''content'', schedules = JArr [],
      summaries = JArr [summary_one, summary_two], selectedFile = SelFile (Blob ''a.pdf''),
      copilotResponse = Some (JStr []), online = True\<rparr>"

text \<open>A page of the legacy uploader with one file chosen.\<close>

definition example_document :: document where
  "example_document =
     \<lparr>pdfInput = Some [Blob ''a.pdf''], output_exists = True, output_innerText = None\<rparr>"

text \<open>Two refresh responses: one with the regenerated fields, one that names another record.\<close>

definition refreshed_fields :: json where
  "refreshed_fields = JObj [''summary'' \<mapsto> JStr ''new'', ''generation_method'' \<mapsto> JStr ''ai'']"

definition refreshed_other_id :: json where
  "refreshed_other_id = JObj [''id'' \<mapsto> JNum 2, ''filename'' \<mapsto> JStr ''b.pdf'']"

section \<open>Facts about the helpers\<close>

lemma refresh_each_length:
  "refresh_each ident r xs = Inr ys \<Longrightarrow> length ys = length xs"
  by (induction xs arbitrary: ys) (auto split: sum.splits)

lemma refresh_each_nth:
  "refresh_each ident r xs = Inr ys \<Longrightarrow> i < length xs \<Longrightarrow>
   \<exists>v. get_prop (xs ! i) ''id'' = Inr v \<and>
       ys ! i = (if strict_eq v ident then object_spread (xs ! i) r else xs ! i)"
proof (induction xs arbitrary: ys i)
  case Nil
  then show ?case by simp
next
  case (Cons x xs)
  from Cons.prems(1) obtain v rest where
    v: "get_prop x ''id'' = Inr v" and
    rest: "refresh_each ident r xs = Inr rest" and
    ys: "ys = (if strict_eq v ident then object_spread x r else x) # rest"
    by (auto split: sum.splits)
  show ?case
  proof (cases i)
    case 0
    with v ys show ?thesis by simp
  next
    case (Suc j)
    with Cons.prems(2) have "j < length xs" by simp
    from Cons.IH [OF rest this] obtain w where
      w: "get_prop (xs ! j) ''id'' = Inr w"
         "rest ! j = (if strict_eq w ident then object_spread (xs ! j) r else xs ! j)"
      by blast
    show ?thesis
      unfolding Suc ys using w by (intro exI [of _ w]) simp
  qed
qed

lemma sent_perform_cases:
  "r \<in> set (sent (perform e net a s)) \<Longrightarrow>
     (\<exists>ep d. r = postJSON_request e ep d) \<or> (\<exists>ep. r = getJSON_request e ep) \<or>
     (\<exists>ep f. r = postFile_request e ep f)"
  by (cases a)
     (auto simp: loadData_def createNote_def createSchedule_def refreshSummary_def
        uploadPDF_def runCopilotCommand_def Let_def
        split: sum.splits if_splits selection.splits)

section \<open>The API key header\<close>

text \<open>
  C1. Every request the frontend constructs carries the header \<^verbatim>\<open>X-API-Key\<close>: the
  requests that \<^verbatim>\<open>postJSON\<close>, \<^verbatim>\<open>getJSON\<close> and \<^verbatim>\<open>postFile\<close> build carry it with the
  configured key, the request of the legacy \<^verbatim>\<open>uploadPDF\<close> of script.js carries it
  with the key written there, and so does every request that an operation of the
  component or the legacy uploader sends.
\<close>

theorem every_request_has_api_key:
  "sends_key (API_KEY e) (postJSON_request e ep d) \<and>
   sends_key (API_KEY e) (getJSON_request e ep) \<and>
   sends_key (API_KEY e) (postFile_request e ep f) \<and>
   sends_key (Some ''resource-app-copilot-key-2024'') (legacy_request f) \<and>
   (\<forall>r \<in> set (sent (perform e net a s)). sends_key (API_KEY e) r \<and> has_header ''X-API-Key'' r) \<and>
   (\<forall>r \<in> set (sent (legacy_uploadPDF net doc)).
      sends_key (Some ''resource-app-copilot-key-2024'') r \<and> has_header ''X-API-Key'' r)"
proof -
  have h1: "sends_key (API_KEY e) (postJSON_request e ep d) \<and>
      has_header ''X-API-Key'' (postJSON_request e ep d)" for ep d
    by (simp add: sends_key_def has_header_def postJSON_request_def defaultHeaders_def)
  have h2: "sends_key (API_KEY e) (getJSON_request e ep) \<and>
      has_header ''X-API-Key'' (getJSON_request e ep)" for ep
    by (simp add: sends_key_def has_header_def getJSON_request_def)
  have h3: "sends_key (API_KEY e) (postFile_request e ep f) \<and>
      has_header ''X-API-Key'' (postFile_request e ep f)" for ep f
    by (simp add: sends_key_def has_header_def postFile_request_def)
  have h4: "sends_key (Some ''resource-app-copilot-key-2024'') (legacy_request f) \<and>
      has_header ''X-API-Key'' (legacy_request f)" for f
    by (simp add: sends_key_def has_header_def legacy_request_def)
  have h5: "sends_key (API_KEY e) r \<and> has_header ''X-API-Key'' r"
    if "r \<in> set (sent (perform e net a s))" for r
    using sent_perform_cases [OF that] h1 h2 h3 by blast
  have h6: "sends_key (Some ''resource-app-copilot-key-2024'') r \<and> has_header ''X-API-Key'' r"
    if "r \<in> set (sent (legacy_uploadPDF net doc))" for r
  proof -
    from that obtain g where "r = legacy_request g"
      by (auto simp: legacy_uploadPDF_def Let_def split: option.splits sum.splits if_splits)
    with h4 show ?thesis by simp
  qed
  from h1 h2 h3 h4 h5 h6 show ?thesis by simp
qed

text \<open>
  C1 on the example state and the example page: the upload request of the component
  and the request of the legacy uploader both carry the key.
\<close>

theorem every_request_has_api_key_witness:
  "postFile_request example_env ''/api/upload-pdf'' (EntryFile (Blob ''a.pdf''))
     \<in> set (sent (perform example_env unreachable UploadPDF example_state)) \<and>
   sends_key (Some ''resource-app-copilot-key-2024'')
     (postFile_request example_env ''/api/upload-pdf'' (EntryFile (Blob ''a.pdf''))) \<and>
   legacy_request (EntryFile (Blob ''a.pdf''))
     \<in> set (sent (legacy_uploadPDF unreachable example_document)) \<and>
   sends_key (Some ''resource-app-copilot-key-2024'') (legacy_request (EntryFile (Blob ''a.pdf'')))"
proof -
  have m: "postFile_request example_env ''/api/upload-pdf'' (EntryFile (Blob ''a.pdf''))
     \<in> set (sent (perform example_env unreachable UploadPDF example_state))"
    by (simp add: uploadPDF_def postFile_def fetch_json_def unreachable_def
          example_state_def Let_def)
  have l: "legacy_request (EntryFile (Blob ''a.pdf''))
     \<in> set (sent (legacy_uploadPDF unreachable example_document))"
    by (simp add: legacy_uploadPDF_def fetch_json_def unreachable_def example_document_def
          first_file_def Let_def)
  have k: "API_KEY example_env = Some ''resource-app-copilot-key-2024''"
    by (simp add: API_KEY_def example_env_def)
  note all = every_request_has_api_key
    [where e = example_env and net = unreachable and a = UploadPDF and s = example_state
       and doc = example_document]
  from all have
    "\<forall>r\<in>set (sent (perform example_env unreachable UploadPDF example_state)).
       sends_key (API_KEY example_env) r \<and> has_header ''X-API-Key'' r"
    by (rule conjunct1 [OF conjunct2 [OF conjunct2 [OF conjunct2 [OF conjunct2]]]])
  from bspec [OF this m] k
  have c1: "sends_key (Some ''resource-app-copilot-key-2024'')
     (postFile_request example_env ''/api/upload-pdf'' (EntryFile (Blob ''a.pdf'')))"
    by simp
  from all have
    "\<forall>r\<in>set (sent (legacy_uploadPDF unreachable example_document)).
       sends_key (Some ''resource-app-copilot-key-2024'') r \<and> has_header ''X-API-Key'' r"
    by (rule conjunct2 [OF conjunct2 [OF conjunct2 [OF conjunct2 [OF conjunct2]]]])
  from bspec [OF this l]
  have c2: "sends_key (Some ''resource-app-copilot-key-2024'')
     (legacy_request (EntryFile (Blob ''a.pdf'')))"
    by simp
  from m c1 l c2 show ?thesis by simp
qed

section \<open>The endpoints\<close>

lemma show_int_1: "show_int 1 = ''1''"
  by code_simp

lemma sent_perform_urls:
  "r \<in> set (sent (perform e net a s)) \<Longrightarrow>
     (\<exists>p\<in>set documented_endpoints. url r = api_url e p) \<or>
     (\<exists>ident. url r = api_url e (refresh_endpoint ident))"
  by (cases a)
     (auto simp: loadData_def createNote_def createSchedule_def refreshSummary_def
        uploadPDF_def runCopilotCommand_def Let_def documented_endpoints_def
        postJSON_request_def getJSON_request_def postFile_request_def
        split: sum.splits if_splits selection.splits)


lemma sent_legacy_url:
  "r \<in> set (sent (legacy_uploadPDF net doc)) \<Longrightarrow> url r = ''/api/upload-pdf''"
  by (auto simp: legacy_uploadPDF_def legacy_request_def Let_def
        split: option.splits sum.splits if_splits)

lemma documented_endpoints_reached:
  "\<forall>p\<in>set documented_endpoints.
     \<exists>net a s. \<exists>r\<in>set (sent (perform e net a s)). url r = api_url e p"
proof -
  define reached where
    "reached = (\<lambda>p. \<exists>net a s. \<exists>r\<in>set (sent (perform e net a s)). url r = api_url e p)"
  have "\<exists>r\<in>set (sent (perform e unreachable (RunCopilotCommand []) example_state)).
          url r = api_url e ''/api/copilot/process-command''"
    by (simp add: runCopilotCommand_def postJSON_def fetch_json_def unreachable_def
          postJSON_request_def Let_def)
  then have f1: "reached ''/api/copilot/process-command''"
    unfolding reached_def by blast
  have "\<exists>r\<in>set (sent (perform e unreachable UploadPDF example_state)).
          url r = api_url e ''/api/upload-pdf''"
    by (simp add: uploadPDF_def postFile_def fetch_json_def unreachable_def
          postFile_request_def example_state_def Let_def)
  then have f2: "reached ''/api/upload-pdf''"
    unfolding reached_def by blast
  have "\<exists>r\<in>set (sent (perform e unreachable LoadData example_state)).
          url r = api_url e ''/api/notes''"
    by (simp add: loadData_def getJSON_def fetch_json_def unreachable_def
          getJSON_request_def Let_def)
  then have f3: "reached ''/api/notes''"
    unfolding reached_def by blast
  have "\<exists>r\<in>set (sent (perform e unreachable (CreateSchedule []) example_state)).
          url r = api_url e ''/api/schedule''"
    by (simp add: createSchedule_def postJSON_def fetch_json_def unreachable_def
          postJSON_request_def Let_def)
  then have f4: "reached ''/api/schedule''"
    unfolding reached_def by blast
  have "\<exists>r\<in>set (sent (perform e (answering JNull) LoadData example_state)).
          url r = api_url e ''/api/summaries''"
    by (simp add: loadData_def getJSON_def fetch_json_def answering_def
          getJSON_request_def Let_def)
  then have f5: "reached ''/api/summaries''"
    unfolding reached_def by blast
  have "list_all reached documented_endpoints"
    unfolding documented_endpoints_def using f1 f2 f3 f4 f5 by (simp only: list.pred_inject simp_thms)
  then show ?thesis
    unfolding reached_def list_all_iff .
qed

lemma refresh_endpoint_reached:
  "\<exists>r\<in>set (sent (perform e net (RefreshSummary ident) s)).
      url r = api_url e (refresh_endpoint ident)"
  by (simp add: refreshSummary_def postJSON_request_def Let_def split: sum.splits)

text \<open>
  C2, as stated: every request goes to one of the five documented endpoints. It fails:
  \<^verbatim>\<open>refreshSummary(1)\<close> posts to \<^verbatim>\<open>/api/refresh-summary/1\<close>, which is none of them.
\<close>

theorem refresh_targets_undocumented_endpoint:
  "sent (perform example_env unreachable (RefreshSummary (PNum 1)) example_state) =
     [postJSON_request example_env ''/api/refresh-summary/1'' (JObj Map.empty)] \<and>
   url (postJSON_request example_env ''/api/refresh-summary/1'' (JObj Map.empty)) =
     ''http://localhost:8000/api/refresh-summary/1'' \<and>
   ''http://localhost:8000/api/refresh-summary/1''
     \<notin> set (map (api_url example_env) documented_endpoints)"
  by (simp add: refreshSummary_def postJSON_def fetch_json_def unreachable_def
        refresh_endpoint_def show_int_1 postJSON_request_def api_url_def API_BASE_URL_def
        example_env_def documented_endpoints_def Let_def)

text \<open>
  C2, amended. Every request of the component goes to one of the five documented
  endpoints or to \<^verbatim>\<open>/api/refresh-summary/<id>\<close>, under the configured base URL; the
  legacy uploader posts to \<^verbatim>\<open>/api/upload-pdf\<close>; each of the five endpoints is the
  target of some operation, and so is the refresh endpoint of every id.
\<close>

theorem frontend_endpoints:
  "(\<forall>r\<in>set (sent (perform e net a s)).
      (\<exists>p\<in>set documented_endpoints. url r = api_url e p) \<or>
      (\<exists>ident. url r = api_url e (refresh_endpoint ident))) \<and>
   (\<forall>r\<in>set (sent (legacy_uploadPDF net doc)). url r = ''/api/upload-pdf'') \<and>
   (\<forall>p\<in>set documented_endpoints.
      \<exists>net' a' s'. \<exists>r\<in>set (sent (perform e net' a' s')). url r = api_url e p) \<and>
   (\<exists>r\<in>set (sent (perform e net (RefreshSummary ident') s)).
      url r = api_url e (refresh_endpoint ident'))"
  using sent_perform_urls sent_legacy_url documented_endpoints_reached
    refresh_endpoint_reached
  by blast

theorem frontend_endpoints_witness:
  "getJSON_request example_env ''/api/summaries''
     \<in> set (sent (perform example_env (answering (JArr [])) LoadData example_state)) \<and>
   ((\<exists>p\<in>set documented_endpoints.
       url (getJSON_request example_env ''/api/summaries'') = api_url example_env p) \<or>
    (\<exists>ident. url (getJSON_request example_env ''/api/summaries'') =
       api_url example_env (refresh_endpoint ident))) \<and>
   legacy_request (EntryFile (Blob ''a.pdf''))
     \<in> set (sent (legacy_uploadPDF unreachable example_document)) \<and>
   url (legacy_request (EntryFile (Blob ''a.pdf''))) = ''/api/upload-pdf'' \<and>
   ''/api/schedule'' \<in> set documented_endpoints \<and>
   (\<exists>net a s. \<exists>r\<in>set (sent (perform example_env net a s)).
      url r = api_url example_env ''/api/schedule'')"
proof -
  have m: "getJSON_request example_env ''/api/summaries''
     \<in> set (sent (perform example_env (answering (JArr [])) LoadData example_state))"
    by (simp add: loadData_def getJSON_def fetch_json_def answering_def Let_def)
  have l: "legacy_request (EntryFile (Blob ''a.pdf''))
     \<in> set (sent (legacy_uploadPDF unreachable example_document))"
    by (simp add: legacy_uploadPDF_def fetch_json_def unreachable_def example_document_def
          first_file_def Let_def)
  have d: "''/api/schedule'' \<in> set documented_endpoints"
    by (simp add: documented_endpoints_def)
  from frontend_endpoints
    [where e = example_env and net = "answering (JArr [])" and a = LoadData
       and s = example_state and doc = example_document]
  have a1: "\<forall>r\<in>set (sent (perform example_env (answering (JArr [])) LoadData example_state)).
      (\<exists>p\<in>set documented_endpoints. url r = api_url example_env p) \<or>
      (\<exists>ident. url r = api_url example_env (refresh_endpoint ident))"
    and a3: "\<forall>p\<in>set documented_endpoints.
      \<exists>net' a' s'. \<exists>r\<in>set (sent (perform example_env net' a' s')).
         url r = api_url example_env p"
    by blast+
  from frontend_endpoints
    [where e = example_env and net = unreachable and doc = example_document]
  have a2: "\<forall>r\<in>set (sent (legacy_uploadPDF unreachable example_document)).
      url r = ''/api/upload-pdf''"
    by blast
  from a1 m have c1: "(\<exists>p\<in>set documented_endpoints.
       url (getJSON_request example_env ''/api/summaries'') = api_url example_env p) \<or>
    (\<exists>ident. url (getJSON_request example_env ''/api/summaries'') =
       api_url example_env (refresh_endpoint ident))"
    by blast
  from a2 l have c2: "url (legacy_request (EntryFile (Blob ''a.pdf''))) = ''/api/upload-pdf''"
    by blast
  from a3 d have c3: "\<exists>net a s. \<exists>r\<in>set (sent (perform example_env net a s)).
      url r = api_url example_env ''/api/schedule''"
    by blast
  from m c1 l c2 d c3 show ?thesis by blast
qed

section \<open>Refreshing a summary\<close>

lemma refreshSummary_completes:
  assumes "thrown (refreshSummary e net ident s) = None"
  obtains refreshed xs ys where
    "postJSON e net (refresh_endpoint ident) (JObj Map.empty) = Inr refreshed"
    "summaries s = JArr xs"
    "refresh_each ident refreshed xs = Inr ys"
    "final (refreshSummary e net ident s) = s\<lparr>summaries := JArr ys\<rparr>"
proof -
  from assms obtain refreshed where
    r: "postJSON e net (refresh_endpoint ident) (JObj Map.empty) = Inr refreshed"
    by (auto simp: refreshSummary_def Let_def split: sum.splits)
  with assms obtain summaries' where
    m: "summaries_map ident refreshed (summaries s) = Inr summaries'"
    by (auto simp: refreshSummary_def Let_def split: sum.splits)
  then obtain xs ys where
    xs: "summaries s = JArr xs" and ys: "refresh_each ident refreshed xs = Inr ys"
    and s': "summaries' = JArr ys"
    by (cases "summaries s") (auto split: sum.splits)
  from r m s' have "final (refreshSummary e net ident s) = s\<lparr>summaries := JArr ys\<rparr>"
    by (simp add: refreshSummary_def Let_def)
  with r xs ys show thesis using that by blast
qed

lemma refreshSummary_throws:
  "thrown (refreshSummary e net ident s) \<noteq> None \<Longrightarrow> final (refreshSummary e net ident s) = s"
  by (auto simp: refreshSummary_def Let_def split: sum.splits)

lemma own_props_object_spread:
  "own_props (object_spread a b) k =
     (case own_props b k of Some w \<Rightarrow> Some w | None \<Rightarrow> own_props a k)"
  by (simp add: object_spread_def map_add_def)

text \<open>
  C3, as stated: after \<^verbatim>\<open>refreshSummary(id)\<close> completes, the record with that id has the
  id and the filename it had, and its summary comes from the refresh response. It
  fails when the response names another record and carries no summary: the record
  with id 1 and filename a.pdf ends with id 2 and filename b.pdf, and keeps its old
  summary.
\<close>

theorem refresh_can_replace_id:
  "own_props (hd (elements (summaries example_state))) ''id'' = Some (JNum 1) \<and>
   own_props (hd (elements (summaries example_state))) ''filename'' = Some (JStr ''a.pdf'') \<and>
   thrown (refreshSummary example_env (answering refreshed_other_id) (PNum 1) example_state) = None \<and>
   own_props (hd (elements (summaries (final
       (refreshSummary example_env (answering refreshed_other_id) (PNum 1) example_state)))))
     ''id'' = Some (JNum 2) \<and>
   own_props (hd (elements (summaries (final
       (refreshSummary example_env (answering refreshed_other_id) (PNum 1) example_state)))))
     ''filename'' = Some (JStr ''b.pdf'') \<and>
   own_props (hd (elements (summaries (final
       (refreshSummary example_env (answering refreshed_other_id) (PNum 1) example_state)))))
     ''summary'' = Some (JStr ''old'')"
  by (simp add: refreshSummary_def postJSON_def fetch_json_def answering_def Let_def
        example_state_def summary_one_def summary_two_def refreshed_other_id_def
        object_spread_def map_add_def)

text \<open>
  C3, amended. When \<^verbatim>\<open>refreshSummary(id)\<close> completes, a record whose id matched has the
  properties of the refresh response where the response has them and its own
  elsewhere. So its id and its filename are what they were when the response does not
  carry that key or carries the same value, and its summary and generation_method are
  the response's when the response carries them.
\<close>

theorem refresh_merges_response:
  assumes "summaries s = JArr xs"
    and "thrown (refreshSummary e net ident s) = None"
    and "i < length xs"
    and "get_prop (xs ! i) ''id'' = Inr v"
    and "strict_eq v ident"
  shows "\<exists>refreshed ys.
    postJSON e net (refresh_endpoint ident) (JObj Map.empty) = Inr refreshed \<and>
    summaries (final (refreshSummary e net ident s)) = JArr ys \<and>
    length ys = length xs \<and>
    (\<forall>k. own_props (ys ! i) k =
       (case own_props refreshed k of Some w \<Rightarrow> Some w | None \<Rightarrow> own_props (xs ! i) k)) \<and>
    (\<forall>k\<in>{''id'', ''filename''}.
       own_props refreshed k = None \<or> own_props refreshed k = own_props (xs ! i) k
       \<longrightarrow> own_props (ys ! i) k = own_props (xs ! i) k) \<and>
    (\<forall>k\<in>{''summary'', ''generation_method''}.
       own_props refreshed k \<noteq> None \<longrightarrow> own_props (ys ! i) k = own_props refreshed k)"
proof -
  from assms(2) obtain refreshed xs' ys where
    r: "postJSON e net (refresh_endpoint ident) (JObj Map.empty) = Inr refreshed" and
    xs': "summaries s = JArr xs'" and
    ys: "refresh_each ident refreshed xs' = Inr ys" and
    fin: "final (refreshSummary e net ident s) = s\<lparr>summaries := JArr ys\<rparr>"
    by (rule refreshSummary_completes)
  from xs' assms(1) have eq: "xs' = xs" by simp
  from ys eq have len: "length ys = length xs"
    by (simp add: refresh_each_length)
  from ys eq have ys': "refresh_each ident refreshed xs = Inr ys" by simp
  from refresh_each_nth [OF ys' assms(3)] obtain w where
    w: "get_prop (xs ! i) ''id'' = Inr w" and
    at: "ys ! i = (if strict_eq w ident then object_spread (xs ! i) refreshed else xs ! i)"
    by blast
  from w assms(4) have "w = v" by simp
  with at assms(5) have nth: "ys ! i = object_spread (xs ! i) refreshed" by simp
  have merge: "own_props (ys ! i) k =
       (case own_props refreshed k of Some w \<Rightarrow> Some w | None \<Rightarrow> own_props (xs ! i) k)" for k
    by (simp add: nth own_props_object_spread)
  have keep: "own_props (ys ! i) k = own_props (xs ! i) k"
    if "own_props refreshed k = None \<or> own_props refreshed k = own_props (xs ! i) k" for k
    using that by (auto simp: merge split: option.splits)
  have take: "own_props (ys ! i) k = own_props refreshed k"
    if "own_props refreshed k \<noteq> None" for k
    using that by (auto simp: merge split: option.splits)
  from fin have "summaries (final (refreshSummary e net ident s)) = JArr ys" by simp
  with r len merge keep take show ?thesis by blast
qed

text \<open>
  The amended C3 on the example state, refreshed with a response that carries a new
  summary and generation method only.
\<close>

theorem refresh_merges_response_witness:
  "summaries example_state = JArr [summary_one, summary_two] \<and>
   thrown (refreshSummary example_env (answering refreshed_fields) (PNum 1) example_state) = None \<and>
   (0::nat) < length [summary_one, summary_two] \<and>
   get_prop ([summary_one, summary_two] ! 0) ''id'' = Inr (Some (JNum 1)) \<and>
   strict_eq (Some (JNum 1)) (PNum 1) \<and>
   own_props refreshed_fields ''id'' = None \<and>
   own_props refreshed_fields ''summary'' = Some (JStr ''new'') \<and>
   own_props (hd (elements (summaries (final
       (refreshSummary example_env (answering refreshed_fields) (PNum 1) example_state)))))
     ''id'' = Some (JNum 1) \<and>
   own_props (hd (elements (summaries (final
       (refreshSummary example_env (answering refreshed_fields) (PNum 1) example_state)))))
     ''summary'' = Some (JStr ''new'')"
proof -
  have h1: "summaries example_state = JArr [summary_one, summary_two]"
    by (simp add: example_state_def)
  have h2: "thrown (refreshSummary example_env (answering refreshed_fields) (PNum 1)
      example_state) = None"
    by (simp add: refreshSummary_def postJSON_def fetch_json_def answering_def Let_def
          example_state_def summary_one_def summary_two_def)
  have h3: "(0::nat) < length [summary_one, summary_two]" by simp
  have h4: "get_prop ([summary_one, summary_two] ! 0) ''id'' = Inr (Some (JNum 1))"
    by (simp add: summary_one_def)
  have h5: "strict_eq (Some (JNum 1)) (PNum 1)" by simp
  have r1: "own_props refreshed_fields ''id'' = None"
    and r2: "own_props refreshed_fields ''summary'' = Some (JStr ''new'')"
    by (simp_all add: refreshed_fields_def)
  have old: "own_props ([summary_one, summary_two] ! 0) ''id'' = Some (JNum 1)"
    by (simp add: summary_one_def)
  from refresh_merges_response [OF h1 h2 h3 h4 h5] obtain refreshed ys where
    r: "postJSON example_env (answering refreshed_fields) (refresh_endpoint (PNum 1))
          (JObj Map.empty) = Inr refreshed" and
    ys: "summaries (final (refreshSummary example_env (answering refreshed_fields) (PNum 1)
          example_state)) = JArr ys" and
    len: "length ys = length [summary_one, summary_two]" and
    keep: "\<forall>k\<in>{''id'', ''filename''}.
       own_props refreshed k = None \<or>
       own_props refreshed k = own_props ([summary_one, summary_two] ! 0) k
       \<longrightarrow> own_props (ys ! 0) k = own_props ([summary_one, summary_two] ! 0) k" and
    take: "\<forall>k\<in>{''summary'', ''generation_method''}.
       own_props refreshed k \<noteq> None \<longrightarrow> own_props (ys ! 0) k = own_props refreshed k"
    by blast
  from r have refreshed: "refreshed = refreshed_fields"
    by (simp add: postJSON_def fetch_json_def answering_def)
  from len have hd: "hd ys = ys ! 0"
    by (cases ys) simp_all
  have in1: "''id'' \<in> {''id'', ''filename''}"
    and in2: "''summary'' \<in> {''summary'', ''generation_method''}"
    by simp_all
  from bspec [OF keep in1] r1 old have "own_props (hd ys) ''id'' = Some (JNum 1)"
    unfolding refreshed hd by simp
  moreover from bspec [OF take in2] r2 have "own_props (hd ys) ''summary'' = Some (JStr ''new'')"
    unfolding refreshed hd by simp
  ultimately show ?thesis using h1 h2 h3 h4 h5 r1 r2 ys by simp
qed

text \<open>
  C4. \<^verbatim>\<open>refreshSummary(id)\<close> changes at most the records whose id matches. When it throws,
  the state is what it was. When it completes, only the summaries changed: the list
  has the same length, and at every position the record whose id differs from the
  argument is the record that was there.
\<close>

theorem refresh_frame:
  "(thrown (refreshSummary e net ident s) \<noteq> None \<longrightarrow>
      final (refreshSummary e net ident s) = s) \<and>
   (thrown (refreshSummary e net ident s) = None \<longrightarrow>
      (\<exists>xs ys. summaries s = JArr xs \<and>
         final (refreshSummary e net ident s) = s\<lparr>summaries := JArr ys\<rparr> \<and>
         length ys = length xs \<and>
         (\<forall>i<length xs. \<exists>v. get_prop (xs ! i) ''id'' = Inr v \<and>
            (\<not> strict_eq v ident \<longrightarrow> ys ! i = xs ! i))))"
proof (intro conjI impI)
  assume "thrown (refreshSummary e net ident s) \<noteq> None"
  then show "final (refreshSummary e net ident s) = s" by (rule refreshSummary_throws)
next
  assume "thrown (refreshSummary e net ident s) = None"
  then obtain refreshed xs ys where
    xs: "summaries s = JArr xs" and
    ys: "refresh_each ident refreshed xs = Inr ys" and
    fin: "final (refreshSummary e net ident s) = s\<lparr>summaries := JArr ys\<rparr>"
    by (rule refreshSummary_completes)
  have "\<exists>v. get_prop (xs ! i) ''id'' = Inr v \<and> (\<not> strict_eq v ident \<longrightarrow> ys ! i = xs ! i)"
    if "i < length xs" for i
    using refresh_each_nth [OF ys that] by auto
  with xs fin refresh_each_length [OF ys]
  show "\<exists>xs ys. summaries s = JArr xs \<and>
         final (refreshSummary e net ident s) = s\<lparr>summaries := JArr ys\<rparr> \<and>
         length ys = length xs \<and>
         (\<forall>i<length xs. \<exists>v. get_prop (xs ! i) ''id'' = Inr v \<and>
            (\<not> strict_eq v ident \<longrightarrow> ys ! i = xs ! i))"
    by blast
qed

text \<open>
  C4 on the example state: refreshing the record with id 1 leaves the second record,
  with id 2, in its place.
\<close>

theorem refresh_frame_witness:
  "thrown (refreshSummary example_env unreachable (PNum 1) example_state) \<noteq> None \<and>
   final (refreshSummary example_env unreachable (PNum 1) example_state) = example_state \<and>
   thrown (refreshSummary example_env (answering refreshed_fields) (PNum 1) example_state) = None \<and>
   elements (summaries (final
     (refreshSummary example_env (answering refreshed_fields) (PNum 1) example_state))) ! 1
     = summary_two \<and>
   length (elements (summaries (final
     (refreshSummary example_env (answering refreshed_fields) (PNum 1) example_state)))) = 2"
proof -
  have t: "thrown (refreshSummary example_env unreachable (PNum 1) example_state) \<noteq> None"
    by (simp add: refreshSummary_def postJSON_def fetch_json_def unreachable_def Let_def)
  with refresh_frame [of example_env unreachable "PNum 1" example_state]
  have same: "final (refreshSummary example_env unreachable (PNum 1) example_state)
      = example_state"
    by blast
  have h: "thrown (refreshSummary example_env (answering refreshed_fields) (PNum 1)
      example_state) = None"
    by (simp add: refreshSummary_def postJSON_def fetch_json_def answering_def Let_def
          example_state_def summary_one_def summary_two_def)
  from refresh_frame [of example_env "answering refreshed_fields" "PNum 1" example_state] h
  obtain xs ys where
    xs: "summaries example_state = JArr xs" and
    fin: "final (refreshSummary example_env (answering refreshed_fields) (PNum 1)
            example_state) = example_state\<lparr>summaries := JArr ys\<rparr>" and
    len: "length ys = length xs" and
    frame: "\<And>i. i < length xs \<Longrightarrow> \<exists>v. get_prop (xs ! i) ''id'' = Inr v \<and>
              (\<not> strict_eq v (PNum 1) \<longrightarrow> ys ! i = xs ! i)"
    by blast
  from xs have xs_eq: "xs = [summary_one, summary_two]"
    by (simp add: example_state_def)
  from frame [of 1] obtain v where
    v: "get_prop (xs ! 1) ''id'' = Inr v" and keep: "\<not> strict_eq v (PNum 1) \<longrightarrow> ys ! 1 = xs ! 1"
    by (auto simp: xs_eq)
  from v have "v = Some (JNum 2)"
    by (simp add: xs_eq summary_two_def)
  with keep have "ys ! 1 = summary_two"
    by (simp add: xs_eq)
  with t same h fin len xs_eq show ?thesis by simp
qed

section \<open>Notes\<close>

lemma createNote_notes:
  assumes "notes_st s = JArr ns"
  shows "notes_st (final (createNote e net s)) = JArr ns \<or>
     (\<exists>newNote.
        postJSON e net ''/api/notes''
          (JObj [''title'' \<mapsto> JStr (noteTitle s), ''content'' \<mapsto> JStr (noteContent s)])
          = Inr newNote \<and>
        notes_st (final (createNote e net s)) = JArr (ns @ [newNote]))"
  using assms by (auto simp: createNote_def Let_def split: sum.splits)

lemma other_operations_keep_notes:
  "notes_st (final (createSchedule e net now s)) = notes_st s"
  "notes_st (final (refreshSummary e net ident s)) = notes_st s"
  "notes_st (final (uploadPDF e net s)) = notes_st s"
  "notes_st (final (runCopilotCommand e net command s)) = notes_st s"
  by (auto simp: createSchedule_def refreshSummary_def uploadPDF_def runCopilotCommand_def
        Let_def split: sum.splits selection.splits)

text \<open>
  C5. Notes are append-only: when the notes are a list, each of \<^verbatim>\<open>createNote\<close>,
  \<^verbatim>\<open>createSchedule\<close>, \<^verbatim>\<open>uploadPDF\<close>, \<^verbatim>\<open>refreshSummary\<close> and \<^verbatim>\<open>runCopilotCommand\<close> leaves every
  note that was in the list at its position, unchanged; all but \<^verbatim>\<open>createNote\<close> leave the
  list as it was, and \<^verbatim>\<open>createNote\<close> leaves it as it was or appends one note, the
  response of the request, at the end.
\<close>

theorem notes_append_only:
  assumes "a \<noteq> LoadData" and "notes_st s = JArr ns"
  shows "(\<forall>i<length ns. elements (notes_st (final (perform e net a s))) ! i = ns ! i) \<and>
     (a \<noteq> CreateNote \<longrightarrow> notes_st (final (perform e net a s)) = JArr ns) \<and>
     (a = CreateNote \<longrightarrow>
        notes_st (final (perform e net a s)) = JArr ns \<or>
        (\<exists>newNote.
           postJSON e net ''/api/notes''
             (JObj [''title'' \<mapsto> JStr (noteTitle s), ''content'' \<mapsto> JStr (noteContent s)])
             = Inr newNote \<and>
           notes_st (final (perform e net a s)) = JArr (ns @ [newNote])))"
proof (cases a)
  case LoadData
  with assms(1) show ?thesis by simp
next
  case CreateNote
  from createNote_notes [OF assms(2), of e net] show ?thesis
    by (auto simp: CreateNote nth_append)
next
  case (CreateSchedule now)
  then show ?thesis by (simp add: other_operations_keep_notes assms(2))
next
  case (RefreshSummary ident)
  then show ?thesis by (simp add: other_operations_keep_notes assms(2))
next
  case UploadPDF
  then show ?thesis by (simp add: other_operations_keep_notes assms(2))
next
  case (RunCopilotCommand command)
  then show ?thesis by (simp add: other_operations_keep_notes assms(2))
qed

text \<open>
  C5 on the example state: the server's answer is appended after the note that was there.
\<close>

theorem notes_append_only_witness:
  "CreateNote \<noteq> LoadData \<and> UploadPDF \<noteq> LoadData \<and>
   notes_st example_state = JArr [note_one] \<and>
   postJSON example_env (answering summary_two) ''/api/notes''
     (JObj [''title'' \<mapsto> JStr (noteTitle example_state),
            ''content'' \<mapsto> JStr (noteContent example_state)]) = Inr summary_two \<and>
   notes_st (final (perform example_env (answering summary_two) CreateNote example_state))
     = JArr ([note_one] @ [summary_two]) \<and>
   elements (notes_st (final
     (perform example_env (answering summary_two) CreateNote example_state))) ! 0 = note_one \<and>
   notes_st (final (perform example_env (answering summary_two) UploadPDF example_state))
     = JArr [note_one]"
proof -
  have h1: "CreateNote \<noteq> LoadData" and h1': "UploadPDF \<noteq> LoadData" by simp_all
  have h2: "notes_st example_state = JArr [note_one]" by (simp add: example_state_def)
  have p: "postJSON example_env (answering summary_two) ''/api/notes''
     (JObj [''title'' \<mapsto> JStr (noteTitle example_state),
            ''content'' \<mapsto> JStr (noteContent example_state)]) = Inr summary_two"
    by (simp add: postJSON_def fetch_json_def answering_def)
  have changed: "notes_st (final (perform example_env (answering summary_two) CreateNote
      example_state)) \<noteq> JArr [note_one]"
    by (simp add: createNote_def postJSON_def fetch_json_def answering_def Let_def
          example_state_def)
  note c = notes_append_only [OF h1 h2, of example_env "answering summary_two"]
  note u = notes_append_only [OF h1' h2, of example_env "answering summary_two"]
  from c changed p
  have a: "notes_st (final (perform example_env (answering summary_two) CreateNote
      example_state)) = JArr ([note_one] @ [summary_two])"
    by auto
  from c have b: "elements (notes_st (final
     (perform example_env (answering summary_two) CreateNote example_state))) ! 0 = note_one"
    by simp
  from u have d: "notes_st (final (perform example_env (answering summary_two) UploadPDF
      example_state)) = JArr [note_one]"
    by simp
  from h1 h1' h2 p a b d show ?thesis by blast
qed

text \<open>
  C8. When \<^verbatim>\<open>noteTitle\<close> or \<^verbatim>\<open>noteContent\<close> is empty, \<^verbatim>\<open>createNote\<close> sends no request,
  throws nothing and leaves the whole state unchanged. Otherwise, when it completes,
  \<^verbatim>\<open>noteTitle\<close> and \<^verbatim>\<open>noteContent\<close> are the empty string.
\<close>

theorem createNote_guard_and_reset:
  "(noteTitle s = [] \<or> noteContent s = [] \<longrightarrow>
      createNote e net s = \<lparr>sent = [], final = s, thrown = None\<rparr>) \<and>
   (noteTitle s \<noteq> [] \<and> noteContent s \<noteq> [] \<and> thrown (createNote e net s) = None \<longrightarrow>
      noteTitle (final (createNote e net s)) = [] \<and>
      noteContent (final (createNote e net s)) = [])"
  by (auto simp: createNote_def Let_def split: sum.splits)

text \<open>
  C8 on the example state, once with the title emptied and once as it is.
\<close>

theorem createNote_guard_and_reset_witness:
  "noteTitle (example_state\<lparr>noteTitle := []\<rparr>) = [] \<and>
   createNote example_env unreachable (example_state\<lparr>noteTitle := []\<rparr>) =
     \<lparr>sent = [], final = example_state\<lparr>noteTitle := []\<rparr>, thrown = None\<rparr> \<and>
   noteTitle example_state \<noteq> [] \<and> noteContent example_state \<noteq> [] \<and>
   thrown (createNote example_env (answering note_one) example_state) = None \<and>
   noteTitle (final (createNote example_env (answering note_one) example_state)) = [] \<and>
   noteContent (final (createNote example_env (answering note_one) example_state)) = []"
proof -
  have g: "noteTitle (example_state\<lparr>noteTitle := []\<rparr>) = []" by simp
  have n: "noteTitle example_state \<noteq> []" "noteContent example_state \<noteq> []"
    by (simp_all add: example_state_def)
  have t: "thrown (createNote example_env (answering note_one) example_state) = None"
    by (simp add: createNote_def postJSON_def fetch_json_def answering_def Let_def
          example_state_def)
  from createNote_guard_and_reset [of "example_state\<lparr>noteTitle := []\<rparr>" example_env unreachable]
    createNote_guard_and_reset [of example_state example_env "answering note_one"] g n t
  show ?thesis by blast
qed

section \<open>Uploading a PDF\<close>

text \<open>
  C9. When \<^verbatim>\<open>selectedFile\<close> is \<^verbatim>\<open>null\<close> (or \<^verbatim>\<open>undefined\<close>), \<^verbatim>\<open>uploadPDF\<close> sends no
  request and leaves the whole state unchanged. When a file is selected, the summaries
  are a list and the upload request returns a response, \<^verbatim>\<open>uploadPDF\<close> sends that one
  request, appends the response at the end of the summaries, sets \<^verbatim>\<open>selectedFile\<close> to
  \<^verbatim>\<open>null\<close> and changes nothing else.
\<close>

theorem uploadPDF_guard_and_append:
  "(selectedFile s = SelNull \<or> selectedFile s = SelUndefined \<longrightarrow>
      uploadPDF e net s = \<lparr>sent = [], final = s, thrown = None\<rparr>) \<and>
   (\<forall>f xs uploaded.
      selectedFile s = SelFile f \<and> summaries s = JArr xs \<and>
      postFile e net ''/api/upload-pdf'' (EntryFile f) = Inr uploaded \<longrightarrow>
      uploadPDF e net s =
        \<lparr>sent = [postFile_request e ''/api/upload-pdf'' (EntryFile f)],
         final = s\<lparr>summaries := JArr (xs @ [uploaded]), selectedFile := SelNull\<rparr>,
         thrown = None\<rparr>)"
  by (auto simp: uploadPDF_def Let_def)

text \<open>
  C9 on the example state, once with no file selected and once with a.pdf selected.
\<close>

theorem uploadPDF_guard_and_append_witness:
  "selectedFile (example_state\<lparr>selectedFile := SelNull\<rparr>) = SelNull \<and>
   uploadPDF example_env unreachable (example_state\<lparr>selectedFile := SelNull\<rparr>) =
     \<lparr>sent = [], final = example_state\<lparr>selectedFile := SelNull\<rparr>, thrown = None\<rparr> \<and>
   selectedFile example_state = SelFile (Blob ''a.pdf'') \<and>
   summaries example_state = JArr [summary_one, summary_two] \<and>
   postFile example_env (answering note_one) ''/api/upload-pdf'' (EntryFile (Blob ''a.pdf''))
     = Inr note_one \<and>
   uploadPDF example_env (answering note_one) example_state =
     \<lparr>sent = [postFile_request example_env ''/api/upload-pdf'' (EntryFile (Blob ''a.pdf''))],
      final = example_state\<lparr>summaries := JArr ([summary_one, summary_two] @ [note_one]),
                selectedFile := SelNull\<rparr>,
      thrown = None\<rparr>"
proof -
  have g: "selectedFile (example_state\<lparr>selectedFile := SelNull\<rparr>) = SelNull" by simp
  have f: "selectedFile example_state = SelFile (Blob ''a.pdf'')"
    and xs: "summaries example_state = JArr [summary_one, summary_two]"
    by (simp_all add: example_state_def)
  have p: "postFile example_env (answering note_one) ''/api/upload-pdf''
      (EntryFile (Blob ''a.pdf'')) = Inr note_one"
    by (simp add: postFile_def fetch_json_def answering_def)
  from uploadPDF_guard_and_append
         [of "example_state\<lparr>selectedFile := SelNull\<rparr>" example_env unreachable]
    uploadPDF_guard_and_append [of example_state example_env "answering note_one"] g f xs p
  show ?thesis by blast
qed

section \<open>The headers and results of the helpers\<close>

text \<open>
  C10. The headers that \<^verbatim>\<open>postFile\<close> passes to \<^verbatim>\<open>fetch\<close> are the single header
  \<^verbatim>\<open>X-API-Key\<close>, with no \<^verbatim>\<open>Content-Type\<close>; those of \<^verbatim>\<open>postJSON\<close> are \<^verbatim>\<open>X-API-Key\<close> and
  \<^verbatim>\<open>Content-Type: application/json\<close>. Each of \<^verbatim>\<open>postJSON\<close>, \<^verbatim>\<open>getJSON\<close> and \<^verbatim>\<open>postFile\<close>
  returns the parsed JSON body of the response to its request.
\<close>

theorem helper_headers_and_results:
  "map fst (headers (postFile_request e ep f)) = [''X-API-Key''] \<and>
   \<not> has_header ''Content-Type'' (postFile_request e ep f) \<and>
   headers (postJSON_request e ep d) =
     [(''X-API-Key'', API_KEY e), (''Content-Type'', Some ''application/json'')] \<and>
   (\<forall>res j. net (postJSON_request e ep d) = Some res \<and> json_body res = Some j \<longrightarrow>
      postJSON e net ep d = Inr j) \<and>
   (\<forall>res j. net (getJSON_request e ep) = Some res \<and> json_body res = Some j \<longrightarrow>
      getJSON e net ep = Inr j) \<and>
   (\<forall>res j. net (postFile_request e ep f) = Some res \<and> json_body res = Some j \<longrightarrow>
      postFile e net ep f = Inr j)"
  by (simp add: postFile_request_def postJSON_request_def defaultHeaders_def has_header_def
        postJSON_def getJSON_def postFile_def fetch_json_def)

text \<open>
  C10 on a network that answers every request with the JSON string "ok".
\<close>

theorem helper_headers_and_results_witness:
  "answering (JStr ''ok'') (postJSON_request example_env ''/api/notes'' JNull) =
     Some \<lparr>status = 200, json_body = Some (JStr ''ok'')\<rparr> \<and>
   json_body \<lparr>status = 200, json_body = Some (JStr ''ok'')\<rparr> = Some (JStr ''ok'') \<and>
   postJSON example_env (answering (JStr ''ok'')) ''/api/notes'' JNull = Inr (JStr ''ok'') \<and>
   getJSON example_env (answering (JStr ''ok'')) ''/api/notes'' = Inr (JStr ''ok'') \<and>
   postFile example_env (answering (JStr ''ok'')) ''/api/upload-pdf'' (EntryFile (Blob ''a.pdf''))
     = Inr (JStr ''ok'')"
proof -
  have a: "answering (JStr ''ok'') r = Some \<lparr>status = 200, json_body = Some (JStr ''ok'')\<rparr>" for r
    by (simp add: answering_def)
  have b: "json_body \<lparr>status = 200, json_body = Some (JStr ''ok'')\<rparr> = Some (JStr ''ok'')"
    by simp
  from helper_headers_and_results
    [where e = example_env and net = "answering (JStr ''ok'')" and ep = "''/api/notes''"
       and d = JNull]
    helper_headers_and_results
    [where e = example_env and net = "answering (JStr ''ok'')" and ep = "''/api/upload-pdf''"
       and f = "EntryFile (Blob ''a.pdf'')"]
    a b
  show ?thesis by blast
qed

end
